theory Spec2Isabelle
  imports Main
begin

section \<open>Feeder gateway routes of starknet-devnet\<close>

text \<open>
  A shallow embedding of \<^verbatim>\<open>starknet_devnet/blueprints/feeder_gateway.py\<close>.
  Every view function of the blueprint becomes a function from the request and
  the world before the call to the result of the view and the world after it.
  The world records what the view did besides answering: the operations it
  invoked on \<^verbatim>\<open>state.starknet_wrapper\<close> and the lines it printed.
\<close>

subsection \<open>Values\<close>

text \<open>What \<^verbatim>\<open>jsonify\<close> encodes: the JSON rendering of a Python value.\<close>

datatype json =
    JNull
  | JBool bool
  | JInt int
  | JStr string
  | JList "json list"
  | JObj "(string \<times> json) list"

text \<open>
  The exception classes the views name in their \<^verbatim>\<open>except\<close> clauses, and
  any other class.
\<close>

datatype exn_class =
    StarkException
  | StarknetDevnetException
  | TypeError
  | ValidationError
  | OtherClass string

text \<open>
  An exception object, as far as the views look at it: the classes it is an
  instance of (its own class and the classes that one derives from), its
  attribute \<^verbatim>\<open>message\<close>, and its rendering \<^verbatim>\<open>str(err)\<close>, which an
  f-string inserts. Which class derives from which is not fixed here: an
  \<^verbatim>\<open>except C\<close> clause catches exactly the objects that are instances of
  \<^verbatim>\<open>C\<close>.
\<close>

datatype exn = Exception (classes: "exn_class list") (message: string) (str: string)

definition isinstance :: "exn \<Rightarrow> exn_class \<Rightarrow> bool" where
  "isinstance err cls = (cls \<in> set (classes err))"

text \<open>
  A response is what \<^verbatim>\<open>Response(body, status)\<close> was given. The body is a
  text, a JSON document made by \<^verbatim>\<open>jsonify\<close>, or the Python object handed
  over in place of a text (\<^verbatim>\<open>get_transaction_trace\<close> hands over the
  exception itself).
\<close>

datatype response_body =
    Text string
  | Json json
  | Object exn

datatype response = Response (body: response_body) (status_code: int)

definition jsonify :: "json \<Rightarrow> response" where
  "jsonify v = Response (Json v) 200"

text \<open>
  How a computation of a view ends: it returns a value, it calls
  \<^verbatim>\<open>abort\<close> with a response, or an exception leaves it uncaught.
\<close>

datatype 'a result =
    Return 'a
  | Abort response
  | Raise exn

text \<open>The response the client is sent, when the view produced one.\<close>

fun sent :: "response result \<Rightarrow> response option" where
  "sent (Return r) = Some r"
| "sent (Abort r) = Some r"
| "sent (Raise e) = None"

subsection \<open>The request\<close>

text \<open>
  \<^verbatim>\<open>request.args\<close> is a MultiDict: the query parameters in order, where
  \<^verbatim>\<open>get\<close> answers the first value of a key. \<^verbatim>\<open>request.data\<close> is the body.
\<close>

record request =
  args :: "(string \<times> string) list"
  data :: string

definition args_get :: "(string \<times> string) list \<Rightarrow> string \<Rightarrow> string option" where
  "args_get request_args key = map_of request_args key"

text \<open>
  \<^verbatim>\<open>request_args.get(key, type=f)\<close>: the converted value, and the default
  \<^verbatim>\<open>None\<close> when the key is absent or the conversion raises ValueError.
\<close>

definition args_get_typed ::
  "(string \<Rightarrow> int option) \<Rightarrow> (string \<times> string) list \<Rightarrow> string \<Rightarrow> int option" where
  "args_get_typed f request_args key =
     (case map_of request_args key of
        None \<Rightarrow> None
      | Some rv \<Rightarrow> f rv)"

text \<open>
  Modelled from the spec: \<^verbatim>\<open>custom_int\<close> of \<^verbatim>\<open>starknet_devnet.util\<close> is
  not among the sources. The spec's \<^verbatim>\<open>parse_integer_param\<close> accepts a decimal
  or a \<^verbatim>\<open>0x\<close>-prefixed hexadecimal numeral and fails on any other lexical
  form, the empty string included. \<^verbatim>\<open>None\<close> stands for the ValueError.
\<close>

definition digit_of :: "nat \<Rightarrow> char \<Rightarrow> nat option" where
  "digit_of base c =
     (let n = (of_char c :: nat);
          v = (if 48 \<le> n \<and> n \<le> 57 then Some (n - 48)
               else if 97 \<le> n \<and> n \<le> 102 then Some (n - 87)
               else if 65 \<le> n \<and> n \<le> 70 then Some (n - 55)
               else None)
      in case v of
           None \<Rightarrow> None
         | Some d \<Rightarrow> if d < base then Some d else None)"

fun digits_value :: "nat \<Rightarrow> nat \<Rightarrow> string \<Rightarrow> nat option" where
  "digits_value base acc [] = Some acc"
| "digits_value base acc (c # cs) =
     (case digit_of base c of
        None \<Rightarrow> None
      | Some d \<Rightarrow> digits_value base (acc * base + d) cs)"

definition parse_numeral :: "nat \<Rightarrow> string \<Rightarrow> int option" where
  "parse_numeral base s =
     (if s = [] then None
      else case digits_value base 0 s of
             None \<Rightarrow> None
           | Some n \<Rightarrow> Some (int n))"

definition custom_int :: "string \<Rightarrow> int option" where
  "custom_int arg =
     (if take 2 arg = ''0x'' then parse_numeral 16 (drop 2 arg)
      else parse_numeral 10 arg)"

subsection \<open>The state engine\<close>

text \<open>
  \<^verbatim>\<open>state.starknet_wrapper\<close> is not part of this layer: the views see one
  method per query, which answers or raises. A view invokes at most one of them,
  so the wrapper is the family of its methods at the moment of the request.
  \<open>'tx\<close> is the type of the decoded call (\<^verbatim>\<open>InvokeFunction\<close>).
\<close>

record 'tx starknet_wrapper =
  wrapper_call :: "'tx \<Rightarrow> exn + json"
  wrapper_get_block_by_hash :: "string \<Rightarrow> exn + json"
  wrapper_get_block_by_number :: "int option \<Rightarrow> exn + json"
  wrapper_get_code :: "int option \<Rightarrow> exn + json"
  wrapper_get_full_contract :: "int option \<Rightarrow> exn + json"
  wrapper_get_storage_at :: "int option \<Rightarrow> int option \<Rightarrow> exn + json"
  wrapper_get_transaction_status :: "string option \<Rightarrow> exn + json"
  wrapper_get_transaction :: "string option \<Rightarrow> exn + json"
  wrapper_get_transaction_receipt :: "string option \<Rightarrow> exn + json"
  wrapper_get_transaction_trace :: "string option \<Rightarrow> exn + json"
  wrapper_get_state_update :: "string option \<Rightarrow> int option \<Rightarrow> exn + json"
  wrapper_calculate_actual_fee :: "'tx \<Rightarrow> exn + int"

text \<open>
  What the views reach from outside: the global \<^verbatim>\<open>state\<close> with its
  wrapper, and the decoder \<^verbatim>\<open>InvokeFunction.loads\<close>.
\<close>

record 'tx state =
  starknet_wrapper :: "'tx starknet_wrapper"
  InvokeFunction_loads :: "string \<Rightarrow> exn + 'tx"

text \<open>One entry of the log of invocations, with the arguments passed.\<close>

datatype 'tx engine_call =
    Call 'tx
  | GetBlockByHash string
  | GetBlockByNumber "int option"
  | GetCode "int option"
  | GetFullContract "int option"
  | GetStorageAt "int option" "int option"
  | GetTransactionStatus "string option"
  | GetTransaction "string option"
  | GetTransactionReceipt "string option"
  | GetTransactionTrace "string option"
  | GetStateUpdate "string option" "int option"
  | CalculateActualFee 'tx

record 'tx world =
  engine_calls :: "'tx engine_call list"
  stdout :: "string list"

definition invoked :: "'tx engine_call \<Rightarrow> 'tx world \<Rightarrow> 'tx world" where
  "invoked c w = w\<lparr>engine_calls := engine_calls w @ [c]\<rparr>"

definition print :: "string \<Rightarrow> 'tx world \<Rightarrow> 'tx world" where
  "print line w = w\<lparr>stdout := stdout w @ [line]\<rparr>"

subsection \<open>Validation and the block arguments\<close>

definition validate_call :: "'tx state \<Rightarrow> string \<Rightarrow> 'tx result" where
  "validate_call st bytes =
     (case InvokeFunction_loads st bytes of
        Inl err \<Rightarrow>
          if isinstance err TypeError \<or> isinstance err ValidationError
          then Abort (Response (Text (''Invalid Starknet function call: '' @ str err)) 400)
          else Raise err
      | Inr call_specifications \<Rightarrow> Return call_specifications)"

text \<open>
  Modelled from the spec: \<^verbatim>\<open>validate_transaction\<close> of
  \<^verbatim>\<open>starknet_devnet/blueprints/shared.py\<close> is not among the sources. By the
  spec the fee estimate parses its body against the same schema as the call,
  and a body that fails it is malformed input: status 400, the body carrying
  the validation detail. Any other failure of the decoder is left to
  propagate, as in \<open>validate_call\<close>.
\<close>

definition validate_transaction :: "'tx state \<Rightarrow> string \<Rightarrow> 'tx result" where
  "validate_transaction st bytes =
     (case InvokeFunction_loads st bytes of
        Inl err \<Rightarrow>
          if isinstance err TypeError \<or> isinstance err ValidationError
          then Abort (Response (Text (str err)) 400)
          else Raise err
      | Inr transaction \<Rightarrow> Return transaction)"

definition check_block_hash :: "(string \<times> string) list \<Rightarrow> 'tx world \<Rightarrow> 'tx world" where
  "check_block_hash request_args w =
     (let block_hash = args_get_typed custom_int request_args ''blockHash''
      in if block_hash \<noteq> None
         then print ''Specifying a block by its hash is not supported. All interaction is done with the latest block.'' w
         else w)"

definition check_block_arguments :: "string option \<Rightarrow> int option \<Rightarrow> unit result" where
  "check_block_arguments block_hash block_number =
     (if block_hash \<noteq> None \<and> block_number \<noteq> None
      then Abort (Response
             (Text ''Ambiguous criteria: only one of (block number, block hash) can be provided.'')
             500)
      else Return ())"

subsection \<open>The views\<close>

type_synonym 'tx view =
  "'tx state \<Rightarrow> request \<Rightarrow> 'tx world \<Rightarrow> response result \<times> 'tx world"

text \<open>A view that returns a text answers it with status 200.\<close>

definition is_alive :: "'tx view" where
  "is_alive st req w = (Return (Response (Text ''Alive!!!'') 200), w)"

text \<open>A view that returns a pair answers the text with the status given.\<close>

definition get_contract_addresses :: "'tx view" where
  "get_contract_addresses st req w = (Return (Response (Text ''Not implemented'') 501), w)"

definition call_contract :: "'tx view" where
  "call_contract st req w =
     (case validate_call st (data req) of
        Abort r \<Rightarrow> (Abort r, w)
      | Raise e \<Rightarrow> (Raise e, w)
      | Return call_specifications \<Rightarrow>
          (let w' = invoked (Call call_specifications) w
           in case wrapper_call (starknet_wrapper st) call_specifications of
                Inl err \<Rightarrow>
                  if isinstance err StarkException
                  then (Abort (Response (Text (message err)) 500), w')
                  else (Raise err, w')
              | Inr result_dict \<Rightarrow> (Return (jsonify result_dict), w')))"

definition get_block :: "'tx view" where
  "get_block st req w =
     (let block_hash = args_get (args req) ''blockHash'';
          block_number = args_get_typed custom_int (args req) ''blockNumber''
      in case check_block_arguments block_hash block_number of
           Abort r \<Rightarrow> (Abort r, w)
         | Raise e \<Rightarrow> (Raise e, w)
         | Return u \<Rightarrow>
             (let (outcome, w') =
                    (case block_hash of
                       Some h \<Rightarrow>
                         (wrapper_get_block_by_hash (starknet_wrapper st) h,
                          invoked (GetBlockByHash h) w)
                     | None \<Rightarrow>
                         (wrapper_get_block_by_number (starknet_wrapper st) block_number,
                          invoked (GetBlockByNumber block_number) w))
              in case outcome of
                   Inl err \<Rightarrow>
                     if isinstance err StarkException
                     then (Abort (Response (Text (message err)) 500), w')
                     else (Raise err, w')
                 | Inr result_dict \<Rightarrow> (Return (jsonify result_dict), w')))"

definition get_code :: "'tx view" where
  "get_code st req w =
     (let w1 = check_block_hash (args req) w;
          contract_address = args_get_typed custom_int (args req) ''contractAddress'';
          w' = invoked (GetCode contract_address) w1
      in case wrapper_get_code (starknet_wrapper st) contract_address of
           Inl err \<Rightarrow> (Raise err, w')
         | Inr result_dict \<Rightarrow> (Return (jsonify result_dict), w'))"

definition get_full_contract :: "'tx view" where
  "get_full_contract st req w =
     (let w1 = check_block_hash (args req) w;
          contract_address = args_get_typed custom_int (args req) ''contractAddress'';
          w' = invoked (GetFullContract contract_address) w1
      in case wrapper_get_full_contract (starknet_wrapper st) contract_address of
           Inl error \<Rightarrow>
             if isinstance error StarknetDevnetException
             then (Abort (Response (Text (message error)) 500), w')
             else (Raise error, w')
         | Inr result_dict \<Rightarrow> (Return (jsonify result_dict), w'))"

definition get_storage_at :: "'tx view" where
  "get_storage_at st req w =
     (let w1 = check_block_hash (args req) w;
          contract_address = args_get_typed custom_int (args req) ''contractAddress'';
          key = args_get_typed custom_int (args req) ''key'';
          w' = invoked (GetStorageAt contract_address key) w1
      in case wrapper_get_storage_at (starknet_wrapper st) contract_address key of
           Inl err \<Rightarrow> (Raise err, w')
         | Inr storage \<Rightarrow> (Return (jsonify storage), w'))"

definition get_transaction_status :: "'tx view" where
  "get_transaction_status st req w =
     (let transaction_hash = args_get (args req) ''transactionHash'';
          w' = invoked (GetTransactionStatus transaction_hash) w
      in case wrapper_get_transaction_status (starknet_wrapper st) transaction_hash of
           Inl err \<Rightarrow> (Raise err, w')
         | Inr ret \<Rightarrow> (Return (jsonify ret), w'))"

definition get_transaction :: "'tx view" where
  "get_transaction st req w =
     (let transaction_hash = args_get (args req) ''transactionHash'';
          w' = invoked (GetTransaction transaction_hash) w
      in case wrapper_get_transaction (starknet_wrapper st) transaction_hash of
           Inl err \<Rightarrow> (Raise err, w')
         | Inr ret \<Rightarrow> (Return (jsonify ret), w'))"

definition get_transaction_receipt :: "'tx view" where
  "get_transaction_receipt st req w =
     (let transaction_hash = args_get (args req) ''transactionHash'';
          w' = invoked (GetTransactionReceipt transaction_hash) w
      in case wrapper_get_transaction_receipt (starknet_wrapper st) transaction_hash of
           Inl err \<Rightarrow> (Raise err, w')
         | Inr ret \<Rightarrow> (Return (jsonify ret), w'))"

text \<open>
  The handler of this view gives \<^verbatim>\<open>Response\<close> the exception \<^verbatim>\<open>err\<close>, where
  the other views give it \<^verbatim>\<open>err.message\<close>.
\<close>

definition get_transaction_trace :: "'tx view" where
  "get_transaction_trace st req w =
     (let transaction_hash = args_get (args req) ''transactionHash'';
          w' = invoked (GetTransactionTrace transaction_hash) w
      in case wrapper_get_transaction_trace (starknet_wrapper st) transaction_hash of
           Inl err \<Rightarrow>
             if isinstance err StarkException
             then (Abort (Response (Object err) 500), w')
             else (Raise err, w')
         | Inr transaction_trace \<Rightarrow> (Return (jsonify transaction_trace), w'))"

definition get_state_update :: "'tx view" where
  "get_state_update st req w =
     (let block_hash = args_get (args req) ''blockHash'';
          block_number = args_get_typed custom_int (args req) ''blockNumber'';
          w' = invoked (GetStateUpdate block_hash block_number) w
      in case wrapper_get_state_update (starknet_wrapper st) block_hash block_number of
           Inl err \<Rightarrow>
             if isinstance err StarkException
             then (Abort (Response (Text (message err)) 500), w')
             else (Raise err, w')
         | Inr state_update \<Rightarrow> (Return (jsonify state_update), w'))"

definition estimate_fee :: "'tx view" where
  "estimate_fee st req w =
     (case validate_transaction st (data req) of
        Abort r \<Rightarrow> (Abort r, w)
      | Raise e \<Rightarrow> (Raise e, w)
      | Return transaction \<Rightarrow>
          (let w' = invoked (CalculateActualFee transaction) w
           in case wrapper_calculate_actual_fee (starknet_wrapper st) transaction of
                Inl stark_exception \<Rightarrow>
                  if isinstance stark_exception StarkException
                  then (Abort (Response (Text (message stark_exception)) 500), w')
                  else (Raise stark_exception, w')
              | Inr actual_fee \<Rightarrow>
                  (Return (jsonify (JObj [(''amount'', JInt actual_fee),
                                          (''unit'', JStr ''wei'')])), w')))"

subsection \<open>The blueprint\<close>

text \<open>The rules registered on the blueprint, one per view.\<close>

datatype rule =
    Is_alive
  | Get_contract_addresses
  | Call_contract
  | Get_block
  | Get_code
  | Get_full_contract
  | Get_storage_at
  | Get_transaction_status
  | Get_transaction
  | Get_transaction_receipt
  | Get_transaction_trace
  | Get_state_update
  | Estimate_fee

fun feeder_gateway :: "rule \<Rightarrow> 'tx view" where
  "feeder_gateway Is_alive = is_alive"
| "feeder_gateway Get_contract_addresses = get_contract_addresses"
| "feeder_gateway Call_contract = call_contract"
| "feeder_gateway Get_block = get_block"
| "feeder_gateway Get_code = get_code"
| "feeder_gateway Get_full_contract = get_full_contract"
| "feeder_gateway Get_storage_at = get_storage_at"
| "feeder_gateway Get_transaction_status = get_transaction_status"
| "feeder_gateway Get_transaction = get_transaction"
| "feeder_gateway Get_transaction_receipt = get_transaction_receipt"
| "feeder_gateway Get_transaction_trace = get_transaction_trace"
| "feeder_gateway Get_state_update = get_state_update"
| "feeder_gateway Estimate_fee = estimate_fee"

subsection \<open>A sample engine\<close>

text \<open>
  Two wrappers for the concrete runs below: one whose methods all answer, one
  whose methods all raise a StarkException; and a decoder that accepts the
  body \<^verbatim>\<open>ok\<close>, fails on the body \<^verbatim>\<open>not json\<close> as
  \<^verbatim>\<open>json.loads\<close> does on a text that is not JSON (a JSONDecodeError, which is
  a ValueError), and rejects any other body with a ValidationError.
\<close>

definition stark_exception :: "string \<Rightarrow> exn" where
  "stark_exception m = Exception [StarkException] m m"

definition devnet_exception :: "string \<Rightarrow> exn" where
  "devnet_exception m = Exception [StarknetDevnetException, StarkException] m m"

definition validation_error :: "string \<Rightarrow> exn" where
  "validation_error detail = Exception [ValidationError] [] detail"

definition json_decode_error :: "string \<Rightarrow> exn" where
  "json_decode_error detail =
     Exception [OtherClass ''JSONDecodeError'', OtherClass ''ValueError''] [] detail"

definition answering_wrapper :: "string starknet_wrapper" where
  "answering_wrapper =
     \<lparr> wrapper_call = (\<lambda>tx. Inr (JObj [(''result'', JList [])])),
       wrapper_get_block_by_hash = (\<lambda>h. Inr (JObj [(''block_hash'', JStr h)])),
       wrapper_get_block_by_number = (\<lambda>n. Inr (JObj [(''block_number'', JInt 0)])),
       wrapper_get_code = (\<lambda>a. Inr (JObj [(''abi'', JObj []), (''bytecode'', JList [])])),
       wrapper_get_full_contract = (\<lambda>a. Inr (JObj [(''abi'', JList [])])),
       wrapper_get_storage_at = (\<lambda>a k. Inr (JStr ''0x0'')),
       wrapper_get_transaction_status = (\<lambda>h. Inr (JObj [(''tx_status'', JStr ''NOT_RECEIVED'')])),
       wrapper_get_transaction = (\<lambda>h. Inr (JObj [(''status'', JStr ''NOT_RECEIVED'')])),
       wrapper_get_transaction_receipt = (\<lambda>h. Inr (JObj [(''status'', JStr ''NOT_RECEIVED'')])),
       wrapper_get_transaction_trace = (\<lambda>h. Inr (JObj [(''signature'', JList [])])),
       wrapper_get_state_update = (\<lambda>h n. Inr (JObj [(''state_diff'', JObj [])])),
       wrapper_calculate_actual_fee = (\<lambda>tx. Inr 0) \<rparr>"

definition raising_wrapper :: "string starknet_wrapper" where
  "raising_wrapper =
     \<lparr> wrapper_call = (\<lambda>tx. Inl (stark_exception ''call failed'')),
       wrapper_get_block_by_hash = (\<lambda>h. Inl (stark_exception ''no such block'')),
       wrapper_get_block_by_number = (\<lambda>n. Inl (stark_exception ''no such block'')),
       wrapper_get_code = (\<lambda>a. Inl (stark_exception ''no code'')),
       wrapper_get_full_contract = (\<lambda>a. Inl (devnet_exception ''uninitialized contract'')),
       wrapper_get_storage_at = (\<lambda>a k. Inl (stark_exception ''no storage'')),
       wrapper_get_transaction_status = (\<lambda>h. Inl (stark_exception ''no status'')),
       wrapper_get_transaction = (\<lambda>h. Inl (stark_exception ''no transaction'')),
       wrapper_get_transaction_receipt = (\<lambda>h. Inl (stark_exception ''no receipt'')),
       wrapper_get_transaction_trace = (\<lambda>h. Inl (stark_exception ''no trace'')),
       wrapper_get_state_update = (\<lambda>h n. Inl (stark_exception ''no state update'')),
       wrapper_calculate_actual_fee = (\<lambda>tx. Inl (stark_exception ''fee failed'')) \<rparr>"

definition sample_loads :: "string \<Rightarrow> exn + string" where
  "sample_loads bytes =
     (if bytes = ''ok'' then Inr bytes
      else if bytes = ''not json''
      then Inl (json_decode_error ''Expecting value: line 1 column 1 (char 0)'')
      else Inl (validation_error ''Missing data for required field.''))"

definition answering_state :: "string state" where
  "answering_state =
     \<lparr> starknet_wrapper = answering_wrapper, InvokeFunction_loads = sample_loads \<rparr>"

definition raising_state :: "string state" where
  "raising_state =
     \<lparr> starknet_wrapper = raising_wrapper, InvokeFunction_loads = sample_loads \<rparr>"

definition get_request :: "(string \<times> string) list \<Rightarrow> request" where
  "get_request request_args = \<lparr> args = request_args, data = [] \<rparr>"

definition post_request :: "string \<Rightarrow> request" where
  "post_request bytes = \<lparr> args = [], data = bytes \<rparr>"

definition fresh_world :: "string world" where
  "fresh_world = \<lparr> engine_calls = [], stdout = [] \<rparr>"

section \<open>Properties of the views\<close>

subsection \<open>Auxiliary facts\<close>

lemmas helper_defs =
  validate_call_def validate_transaction_def check_block_hash_def check_block_arguments_def
  args_get_def args_get_typed_def invoked_def print_def jsonify_def isinstance_def

lemmas sample_defs =
  answering_state_def raising_state_def answering_wrapper_def raising_wrapper_def
  sample_loads_def get_request_def post_request_def fresh_world_def
  stark_exception_def devnet_exception_def validation_error_def json_decode_error_def

lemmas parse_defs = custom_int_def parse_numeral_def digit_of_def

lemma engine_calls_check_block_hash:
  "engine_calls (check_block_hash request_args w) = engine_calls w"
  by (simp add: check_block_hash_def print_def)

lemma check_block_arguments_both:
  "check_block_arguments (Some h) (Some n) =
     Abort (Response
       (Text ''Ambiguous criteria: only one of (block number, block hash) can be provided.'')
       500)"
  by (simp add: check_block_arguments_def)

lemma status_call_contract:
  "sent (fst (call_contract st req w)) = Some r \<Longrightarrow> status_code r \<in> {200, 400, 500}"
  by (auto simp: call_contract_def validate_call_def jsonify_def Let_def
           split: result.splits sum.splits if_splits)

lemma status_estimate_fee:
  "sent (fst (estimate_fee st req w)) = Some r \<Longrightarrow> status_code r \<in> {200, 400, 500}"
  by (auto simp: estimate_fee_def validate_transaction_def jsonify_def Let_def
           split: result.splits sum.splits if_splits)

lemma status_get_block:
  "sent (fst (get_block st req w)) = Some r \<Longrightarrow> status_code r \<in> {200, 500}"
  by (auto simp: get_block_def check_block_arguments_def jsonify_def Let_def
           split: result.splits sum.splits if_splits option.splits prod.splits)

lemma status_get_code:
  "sent (fst (get_code st req w)) = Some r \<Longrightarrow> status_code r = 200"
  by (auto simp: get_code_def jsonify_def Let_def split: sum.splits)

lemma status_get_full_contract:
  "sent (fst (get_full_contract st req w)) = Some r \<Longrightarrow> status_code r \<in> {200, 500}"
  by (auto simp: get_full_contract_def jsonify_def Let_def split: sum.splits if_splits)

lemma status_get_storage_at:
  "sent (fst (get_storage_at st req w)) = Some r \<Longrightarrow> status_code r = 200"
  by (auto simp: get_storage_at_def jsonify_def Let_def split: sum.splits)

lemma status_get_transaction_status:
  "sent (fst (get_transaction_status st req w)) = Some r \<Longrightarrow> status_code r = 200"
  by (auto simp: get_transaction_status_def jsonify_def Let_def split: sum.splits)

lemma status_get_transaction:
  "sent (fst (get_transaction st req w)) = Some r \<Longrightarrow> status_code r = 200"
  by (auto simp: get_transaction_def jsonify_def Let_def split: sum.splits)

lemma status_get_transaction_receipt:
  "sent (fst (get_transaction_receipt st req w)) = Some r \<Longrightarrow> status_code r = 200"
  by (auto simp: get_transaction_receipt_def jsonify_def Let_def split: sum.splits)

lemma status_get_transaction_trace:
  "sent (fst (get_transaction_trace st req w)) = Some r \<Longrightarrow> status_code r \<in> {200, 500}"
  by (auto simp: get_transaction_trace_def jsonify_def Let_def split: sum.splits if_splits)

lemma status_get_state_update:
  "sent (fst (get_state_update st req w)) = Some r \<Longrightarrow> status_code r \<in> {200, 500}"
  by (auto simp: get_state_update_def jsonify_def Let_def split: sum.splits if_splits)


subsection \<open>Ambiguous block criteria\<close>

text \<open>
  C1 (as the code has it). A request to \<^verbatim>\<open>get_block\<close> that carries a block
  hash and a block number that \<open>custom_int\<close> accepts is answered with status
  500 and the message of the ambiguous criteria, and the world is as before: no
  method of the wrapper was invoked. \<^verbatim>\<open>get_state_update\<close> has no such check:
  whatever the two arguments are, it invokes the wrapper's method once with the
  hash as received and the number as converted.
\<close>

theorem get_block_ambiguous_criteria:
  "(args_get (args req) ''blockHash'' = Some h \<and>
    args_get_typed custom_int (args req) ''blockNumber'' = Some n \<longrightarrow>
      get_block st req w =
        (Abort (Response
           (Text ''Ambiguous criteria: only one of (block number, block hash) can be provided.'')
           500), w)) \<and>
   engine_calls (snd (get_state_update st req w)) =
     engine_calls w @
       [GetStateUpdate (args_get (args req) ''blockHash'')
          (args_get_typed custom_int (args req) ''blockNumber'')]"
proof (intro conjI impI)
  assume both: "args_get (args req) ''blockHash'' = Some h \<and>
    args_get_typed custom_int (args req) ''blockNumber'' = Some n"
  then show "get_block st req w =
      (Abort (Response
         (Text ''Ambiguous criteria: only one of (block number, block hash) can be provided.'')
         500), w)"
    by (simp add: get_block_def check_block_arguments_both)
next
  show "engine_calls (snd (get_state_update st req w)) =
     engine_calls w @
       [GetStateUpdate (args_get (args req) ''blockHash'')
          (args_get_typed custom_int (args req) ''blockNumber'')]"
    by (simp add: get_state_update_def invoked_def Let_def split: sum.splits)
qed

theorem get_block_ambiguous_criteria_witness:
  "args_get (args (get_request [(''blockHash'', ''0x1''), (''blockNumber'', ''0x1a'')]))
     ''blockHash'' = Some ''0x1'' \<and>
   args_get_typed custom_int
     (args (get_request [(''blockHash'', ''0x1''), (''blockNumber'', ''0x1a'')]))
     ''blockNumber'' = Some 26 \<and>
   get_block raising_state
     (get_request [(''blockHash'', ''0x1''), (''blockNumber'', ''0x1a'')]) fresh_world =
     (Abort (Response
        (Text ''Ambiguous criteria: only one of (block number, block hash) can be provided.'')
        500), fresh_world)"
proof -
  let ?req = "get_request [(''blockHash'', ''0x1''), (''blockNumber'', ''0x1a'')]"
  have h: "args_get (args ?req) ''blockHash'' = Some ''0x1''"
    by (simp add: get_request_def args_get_def)
  have n: "args_get_typed custom_int (args ?req) ''blockNumber'' = Some 26"
    by (simp add: get_request_def args_get_typed_def parse_defs)
  from h n get_block_ambiguous_criteria [of ?req "''0x1''" 26 raising_state fresh_world]
  show ?thesis by blast
qed

theorem ambiguous_criteria_counterexample:
  "get_state_update answering_state
     (get_request [(''blockHash'', ''0x1''), (''blockNumber'', ''1'')]) fresh_world =
     (Return (Response (Json (JObj [(''state_diff'', JObj [])])) 200),
      \<lparr>engine_calls = [GetStateUpdate (Some ''0x1'') (Some 1)], stdout = []\<rparr>) \<and>
   get_block answering_state
     (get_request [(''blockHash'', ''0x1''), (''blockNumber'', ''abc'')]) fresh_world =
     (Return (Response (Json (JObj [(''block_hash'', JStr ''0x1'')])) 200),
      \<lparr>engine_calls = [GetBlockByHash ''0x1''], stdout = []\<rparr>)"
  by (simp add: get_state_update_def get_block_def helper_defs sample_defs parse_defs)

subsection \<open>Block lookup\<close>

text \<open>
  C2 (as the code has it). \<^verbatim>\<open>get_block\<close> serves a lookup by hash: when a
  block hash is supplied and no block number is, the view invokes
  \<^verbatim>\<open>get_block_by_hash\<close> with that hash, and nothing else, prints nothing, and
  returns the block the wrapper answers. When no block hash is supplied it
  invokes \<^verbatim>\<open>get_block_by_number\<close> with the converted number, which is
  \<^verbatim>\<open>None\<close> when there is none.
\<close>

theorem get_block_by_hash_or_number:
  "(args_get (args req) ''blockHash'' = Some h \<and>
    args_get_typed custom_int (args req) ''blockNumber'' = None \<longrightarrow>
      snd (get_block st req w) = w\<lparr>engine_calls := engine_calls w @ [GetBlockByHash h]\<rparr> \<and>
      (\<forall>b. wrapper_get_block_by_hash (starknet_wrapper st) h = Inr b \<longrightarrow>
         fst (get_block st req w) = Return (Response (Json b) 200))) \<and>
   (args_get (args req) ''blockHash'' = None \<longrightarrow>
      snd (get_block st req w) =
        w\<lparr>engine_calls := engine_calls w @
            [GetBlockByNumber (args_get_typed custom_int (args req) ''blockNumber'')]\<rparr> \<and>
      (\<forall>b. wrapper_get_block_by_number (starknet_wrapper st)
              (args_get_typed custom_int (args req) ''blockNumber'') = Inr b \<longrightarrow>
         fst (get_block st req w) = Return (Response (Json b) 200)))"
  by (auto simp: get_block_def check_block_arguments_def invoked_def jsonify_def Let_def
           split: sum.splits)

theorem get_block_by_hash_or_number_witness:
  "args_get (args (get_request [(''blockHash'', ''0x1'')])) ''blockHash'' = Some ''0x1'' \<and>
   args_get_typed custom_int (args (get_request [(''blockHash'', ''0x1'')])) ''blockNumber'' = None \<and>
   snd (get_block answering_state (get_request [(''blockHash'', ''0x1'')]) fresh_world) =
     fresh_world\<lparr>engine_calls := engine_calls fresh_world @ [GetBlockByHash ''0x1'']\<rparr> \<and>
   wrapper_get_block_by_hash (starknet_wrapper answering_state) ''0x1'' =
     Inr (JObj [(''block_hash'', JStr ''0x1'')]) \<and>
   fst (get_block answering_state (get_request [(''blockHash'', ''0x1'')]) fresh_world) =
     Return (Response (Json (JObj [(''block_hash'', JStr ''0x1'')])) 200) \<and>
   args_get (args (get_request [(''blockNumber'', ''7'')])) ''blockHash'' = None \<and>
   snd (get_block answering_state (get_request [(''blockNumber'', ''7'')]) fresh_world) =
     fresh_world\<lparr>engine_calls := engine_calls fresh_world @ [GetBlockByNumber (Some 7)]\<rparr> \<and>
   wrapper_get_block_by_number (starknet_wrapper answering_state) (Some 7) =
     Inr (JObj [(''block_number'', JInt 0)]) \<and>
   fst (get_block answering_state (get_request [(''blockNumber'', ''7'')]) fresh_world) =
     Return (Response (Json (JObj [(''block_number'', JInt 0)])) 200)"
proof -
  let ?rh = "get_request [(''blockHash'', ''0x1'')]"
  let ?rn = "get_request [(''blockNumber'', ''7'')]"
  have h1: "args_get (args ?rh) ''blockHash'' = Some ''0x1''"
    by (simp add: get_request_def args_get_def)
  have h2: "args_get_typed custom_int (args ?rh) ''blockNumber'' = None"
    by (simp add: get_request_def args_get_typed_def)
  have h3: "wrapper_get_block_by_hash (starknet_wrapper answering_state) ''0x1'' =
     Inr (JObj [(''block_hash'', JStr ''0x1'')])"
    by (simp add: answering_state_def answering_wrapper_def)
  have n1: "args_get (args ?rn) ''blockHash'' = None"
    by (simp add: get_request_def args_get_def)
  have n2: "args_get_typed custom_int (args ?rn) ''blockNumber'' = Some 7"
    by (simp add: get_request_def args_get_typed_def parse_defs)
  have n3: "wrapper_get_block_by_number (starknet_wrapper answering_state) (Some 7) =
     Inr (JObj [(''block_number'', JInt 0)])"
    by (simp add: answering_state_def answering_wrapper_def)
  from h1 h2 h3 get_block_by_hash_or_number [of ?rh "''0x1''" answering_state fresh_world]
  have a: "snd (get_block answering_state ?rh fresh_world) =
      fresh_world\<lparr>engine_calls := engine_calls fresh_world @ [GetBlockByHash ''0x1'']\<rparr> \<and>
    fst (get_block answering_state ?rh fresh_world) =
      Return (Response (Json (JObj [(''block_hash'', JStr ''0x1'')])) 200)"
    by blast
  from n1 n2 n3 get_block_by_hash_or_number [of ?rn "''0x1''" answering_state fresh_world]
  have b: "snd (get_block answering_state ?rn fresh_world) =
      fresh_world\<lparr>engine_calls := engine_calls fresh_world @ [GetBlockByNumber (Some 7)]\<rparr> \<and>
    fst (get_block answering_state ?rn fresh_world) =
      Return (Response (Json (JObj [(''block_number'', JInt 0)])) 200)"
    by simp
  from h1 h2 h3 n1 n3 a b show ?thesis by blast
qed

theorem get_block_hash_ignored_counterexample:
  "get_block answering_state (get_request [(''blockHash'', ''0x1'')]) fresh_world =
     (Return (Response (Json (JObj [(''block_hash'', JStr ''0x1'')])) 200),
      \<lparr>engine_calls = [GetBlockByHash ''0x1''], stdout = []\<rparr>)"
  by (simp add: get_block_def helper_defs sample_defs)

subsection \<open>Failures of the engine\<close>

text \<open>
  C3 (as the code has it). A StarkException raised by the wrapper during
  \<^verbatim>\<open>call_contract\<close>, \<^verbatim>\<open>get_block\<close>, \<^verbatim>\<open>get_state_update\<close> or
  \<^verbatim>\<open>estimate_fee\<close>, and a StarknetDevnetException raised during
  \<^verbatim>\<open>get_full_contract\<close>, is caught by the view and answered with status 500
  and the exception's message. \<^verbatim>\<open>get_code\<close>, \<^verbatim>\<open>get_storage_at\<close>,
  \<^verbatim>\<open>get_transaction_status\<close>, \<^verbatim>\<open>get_transaction\<close> and
  \<^verbatim>\<open>get_transaction_receipt\<close> catch nothing: whatever the wrapper raises
  there leaves the view as it is.
\<close>

theorem engine_failures_caught_or_propagated:
  "(InvokeFunction_loads st (data rc) = Inr tx \<and>
    wrapper_call (starknet_wrapper st) tx = Inl e1 \<and> isinstance e1 StarkException \<longrightarrow>
      fst (call_contract st rc w) = Abort (Response (Text (message e1)) 500)) \<and>
   (args_get (args rb) ''blockHash'' = None \<and>
    wrapper_get_block_by_number (starknet_wrapper st)
      (args_get_typed custom_int (args rb) ''blockNumber'') = Inl e2 \<and>
    isinstance e2 StarkException \<longrightarrow>
      fst (get_block st rb w) = Abort (Response (Text (message e2)) 500)) \<and>
   (args_get (args rh) ''blockHash'' = Some h \<and>
    args_get_typed custom_int (args rh) ''blockNumber'' = None \<and>
    wrapper_get_block_by_hash (starknet_wrapper st) h = Inl e0 \<and>
    isinstance e0 StarkException \<longrightarrow>
      fst (get_block st rh w) = Abort (Response (Text (message e0)) 500)) \<and>
   (wrapper_get_state_update (starknet_wrapper st) (args_get (args ru) ''blockHash'')
      (args_get_typed custom_int (args ru) ''blockNumber'') = Inl e3 \<and>
    isinstance e3 StarkException \<longrightarrow>
      fst (get_state_update st ru w) = Abort (Response (Text (message e3)) 500)) \<and>
   (InvokeFunction_loads st (data rf) = Inr tx' \<and>
    wrapper_calculate_actual_fee (starknet_wrapper st) tx' = Inl e4 \<and>
    isinstance e4 StarkException \<longrightarrow>
      fst (estimate_fee st rf w) = Abort (Response (Text (message e4)) 500)) \<and>
   (wrapper_get_full_contract (starknet_wrapper st)
      (args_get_typed custom_int (args rq) ''contractAddress'') = Inl e5 \<and>
    isinstance e5 StarknetDevnetException \<longrightarrow>
      fst (get_full_contract st rq w) = Abort (Response (Text (message e5)) 500)) \<and>
   (wrapper_get_code (starknet_wrapper st)
      (args_get_typed custom_int (args rq) ''contractAddress'') = Inl e6 \<longrightarrow>
      fst (get_code st rq w) = Raise e6) \<and>
   (wrapper_get_storage_at (starknet_wrapper st)
      (args_get_typed custom_int (args rq) ''contractAddress'')
      (args_get_typed custom_int (args rq) ''key'') = Inl e7 \<longrightarrow>
      fst (get_storage_at st rq w) = Raise e7) \<and>
   (wrapper_get_transaction_status (starknet_wrapper st)
      (args_get (args rq) ''transactionHash'') = Inl e8 \<longrightarrow>
      fst (get_transaction_status st rq w) = Raise e8) \<and>
   (wrapper_get_transaction (starknet_wrapper st)
      (args_get (args rq) ''transactionHash'') = Inl e9 \<longrightarrow>
      fst (get_transaction st rq w) = Raise e9) \<and>
   (wrapper_get_transaction_receipt (starknet_wrapper st)
      (args_get (args rq) ''transactionHash'') = Inl e10 \<longrightarrow>
      fst (get_transaction_receipt st rq w) = Raise e10)"
proof (intro conjI impI)
  assume "InvokeFunction_loads st (data rc) = Inr tx \<and>
    wrapper_call (starknet_wrapper st) tx = Inl e1 \<and> isinstance e1 StarkException"
  then show "fst (call_contract st rc w) = Abort (Response (Text (message e1)) 500)"
    by (simp add: call_contract_def validate_call_def Let_def)
next
  assume "args_get (args rb) ''blockHash'' = None \<and>
    wrapper_get_block_by_number (starknet_wrapper st)
      (args_get_typed custom_int (args rb) ''blockNumber'') = Inl e2 \<and>
    isinstance e2 StarkException"
  then show "fst (get_block st rb w) = Abort (Response (Text (message e2)) 500)"
    by (simp add: get_block_def check_block_arguments_def Let_def)
next
  assume "args_get (args rh) ''blockHash'' = Some h \<and>
    args_get_typed custom_int (args rh) ''blockNumber'' = None \<and>
    wrapper_get_block_by_hash (starknet_wrapper st) h = Inl e0 \<and>
    isinstance e0 StarkException"
  then show "fst (get_block st rh w) = Abort (Response (Text (message e0)) 500)"
    by (simp add: get_block_def check_block_arguments_def Let_def)
next
  assume "wrapper_get_state_update (starknet_wrapper st) (args_get (args ru) ''blockHash'')
      (args_get_typed custom_int (args ru) ''blockNumber'') = Inl e3 \<and>
    isinstance e3 StarkException"
  then show "fst (get_state_update st ru w) = Abort (Response (Text (message e3)) 500)"
    by (simp add: get_state_update_def Let_def)
next
  assume "InvokeFunction_loads st (data rf) = Inr tx' \<and>
    wrapper_calculate_actual_fee (starknet_wrapper st) tx' = Inl e4 \<and>
    isinstance e4 StarkException"
  then show "fst (estimate_fee st rf w) = Abort (Response (Text (message e4)) 500)"
    by (simp add: estimate_fee_def validate_transaction_def Let_def)
next
  assume "wrapper_get_full_contract (starknet_wrapper st)
      (args_get_typed custom_int (args rq) ''contractAddress'') = Inl e5 \<and>
    isinstance e5 StarknetDevnetException"
  then show "fst (get_full_contract st rq w) = Abort (Response (Text (message e5)) 500)"
    by (simp add: get_full_contract_def Let_def)
next
  assume "wrapper_get_code (starknet_wrapper st)
      (args_get_typed custom_int (args rq) ''contractAddress'') = Inl e6"
  then show "fst (get_code st rq w) = Raise e6"
    by (simp add: get_code_def Let_def)
next
  assume "wrapper_get_storage_at (starknet_wrapper st)
      (args_get_typed custom_int (args rq) ''contractAddress'')
      (args_get_typed custom_int (args rq) ''key'') = Inl e7"
  then show "fst (get_storage_at st rq w) = Raise e7"
    by (simp add: get_storage_at_def Let_def)
next
  assume "wrapper_get_transaction_status (starknet_wrapper st)
      (args_get (args rq) ''transactionHash'') = Inl e8"
  then show "fst (get_transaction_status st rq w) = Raise e8"
    by (simp add: get_transaction_status_def Let_def)
next
  assume "wrapper_get_transaction (starknet_wrapper st)
      (args_get (args rq) ''transactionHash'') = Inl e9"
  then show "fst (get_transaction st rq w) = Raise e9"
    by (simp add: get_transaction_def Let_def)
next
  assume "wrapper_get_transaction_receipt (starknet_wrapper st)
      (args_get (args rq) ''transactionHash'') = Inl e10"
  then show "fst (get_transaction_receipt st rq w) = Raise e10"
    by (simp add: get_transaction_receipt_def Let_def)
qed

theorem engine_failures_caught_or_propagated_witness:
  "fst (call_contract raising_state (post_request ''ok'') fresh_world) =
     Abort (Response (Text ''call failed'') 500) \<and>
   fst (get_block raising_state (get_request [(''blockNumber'', ''7'')]) fresh_world) =
     Abort (Response (Text ''no such block'') 500) \<and>
   fst (get_block raising_state (get_request [(''blockHash'', ''0x1'')]) fresh_world) =
     Abort (Response (Text ''no such block'') 500) \<and>
   fst (get_state_update raising_state (get_request []) fresh_world) =
     Abort (Response (Text ''no state update'') 500) \<and>
   fst (estimate_fee raising_state (post_request ''ok'') fresh_world) =
     Abort (Response (Text ''fee failed'') 500) \<and>
   fst (get_full_contract raising_state
          (get_request [(''contractAddress'', ''0x1''), (''key'', ''2''), (''transactionHash'', ''0x0'')])
          fresh_world) =
     Abort (Response (Text ''uninitialized contract'') 500) \<and>
   fst (get_code raising_state
          (get_request [(''contractAddress'', ''0x1''), (''key'', ''2''), (''transactionHash'', ''0x0'')])
          fresh_world) =
     Raise (stark_exception ''no code'') \<and>
   fst (get_storage_at raising_state
          (get_request [(''contractAddress'', ''0x1''), (''key'', ''2''), (''transactionHash'', ''0x0'')])
          fresh_world) =
     Raise (stark_exception ''no storage'') \<and>
   fst (get_transaction_status raising_state
          (get_request [(''contractAddress'', ''0x1''), (''key'', ''2''), (''transactionHash'', ''0x0'')])
          fresh_world) =
     Raise (stark_exception ''no status'') \<and>
   fst (get_transaction raising_state
          (get_request [(''contractAddress'', ''0x1''), (''key'', ''2''), (''transactionHash'', ''0x0'')])
          fresh_world) =
     Raise (stark_exception ''no transaction'') \<and>
   fst (get_transaction_receipt raising_state
          (get_request [(''contractAddress'', ''0x1''), (''key'', ''2''), (''transactionHash'', ''0x0'')])
          fresh_world) =
     Raise (stark_exception ''no receipt'')"
proof -
  let ?st = "raising_state"
  let ?rc = "post_request ''ok''"
  let ?rb = "get_request [(''blockNumber'', ''7'')]"
  let ?rh = "get_request [(''blockHash'', ''0x1'')]"
  let ?ru = "get_request []"
  let ?rq = "get_request
    [(''contractAddress'', ''0x1''), (''key'', ''2''), (''transactionHash'', ''0x0'')]"
  have loads: "InvokeFunction_loads ?st (data ?rc) = Inr ''ok''"
    by (simp add: raising_state_def sample_loads_def post_request_def)
  have c1: "wrapper_call (starknet_wrapper ?st) ''ok'' = Inl (stark_exception ''call failed'')"
    by (simp add: raising_state_def raising_wrapper_def)
  have b1: "args_get (args ?rb) ''blockHash'' = None"
    by (simp add: get_request_def args_get_def)
  have b2: "wrapper_get_block_by_number (starknet_wrapper ?st)
      (args_get_typed custom_int (args ?rb) ''blockNumber'') = Inl (stark_exception ''no such block'')"
    by (simp add: raising_state_def raising_wrapper_def)
  have h1: "args_get (args ?rh) ''blockHash'' = Some ''0x1''"
    by (simp add: get_request_def args_get_def)
  have h2: "args_get_typed custom_int (args ?rh) ''blockNumber'' = None"
    by (simp add: get_request_def args_get_typed_def)
  have h3: "wrapper_get_block_by_hash (starknet_wrapper ?st) ''0x1'' =
      Inl (stark_exception ''no such block'')"
    by (simp add: raising_state_def raising_wrapper_def)
  have u1: "wrapper_get_state_update (starknet_wrapper ?st) (args_get (args ?ru) ''blockHash'')
      (args_get_typed custom_int (args ?ru) ''blockNumber'') = Inl (stark_exception ''no state update'')"
    by (simp add: raising_state_def raising_wrapper_def)
  have f1: "wrapper_calculate_actual_fee (starknet_wrapper ?st) ''ok'' =
      Inl (stark_exception ''fee failed'')"
    by (simp add: raising_state_def raising_wrapper_def)
  have q5: "wrapper_get_full_contract (starknet_wrapper ?st)
      (args_get_typed custom_int (args ?rq) ''contractAddress'') =
      Inl (devnet_exception ''uninitialized contract'')"
    by (simp add: raising_state_def raising_wrapper_def)
  have q6: "wrapper_get_code (starknet_wrapper ?st)
      (args_get_typed custom_int (args ?rq) ''contractAddress'') = Inl (stark_exception ''no code'')"
    by (simp add: raising_state_def raising_wrapper_def)
  have q7: "wrapper_get_storage_at (starknet_wrapper ?st)
      (args_get_typed custom_int (args ?rq) ''contractAddress'')
      (args_get_typed custom_int (args ?rq) ''key'') = Inl (stark_exception ''no storage'')"
    by (simp add: raising_state_def raising_wrapper_def)
  have q8: "wrapper_get_transaction_status (starknet_wrapper ?st)
      (args_get (args ?rq) ''transactionHash'') = Inl (stark_exception ''no status'')"
    by (simp add: raising_state_def raising_wrapper_def)
  have q9: "wrapper_get_transaction (starknet_wrapper ?st)
      (args_get (args ?rq) ''transactionHash'') = Inl (stark_exception ''no transaction'')"
    by (simp add: raising_state_def raising_wrapper_def)
  have q10: "wrapper_get_transaction_receipt (starknet_wrapper ?st)
      (args_get (args ?rq) ''transactionHash'') = Inl (stark_exception ''no receipt'')"
    by (simp add: raising_state_def raising_wrapper_def)
  note inst = engine_failures_caught_or_propagated
    [where st = ?st and w = fresh_world and rc = ?rc and tx = "''ok''"
       and ?e1.0 = "stark_exception ''call failed''"
       and rb = ?rb and ?e2.0 = "stark_exception ''no such block''"
       and rh = ?rh and h = "''0x1''" and ?e0.0 = "stark_exception ''no such block''"
       and ru = ?ru and ?e3.0 = "stark_exception ''no state update''"
       and rf = ?rc and tx' = "''ok''" and ?e4.0 = "stark_exception ''fee failed''"
       and rq = ?rq and ?e5.0 = "devnet_exception ''uninitialized contract''"
       and ?e6.0 = "stark_exception ''no code''" and ?e7.0 = "stark_exception ''no storage''"
       and ?e8.0 = "stark_exception ''no status''" and ?e9.0 = "stark_exception ''no transaction''"
       and ?e10.0 = "stark_exception ''no receipt''"]
  from inst loads c1 b1 b2 h1 h2 h3 u1 f1 q5 q6 q7 q8 q9 q10 show ?thesis
    by (simp add: isinstance_def stark_exception_def devnet_exception_def)
qed

theorem get_code_failure_counterexample:
  "get_code raising_state (get_request [(''contractAddress'', ''0x1'')]) fresh_world =
     (Raise (stark_exception ''no code''),
      \<lparr>engine_calls = [GetCode (Some 1)], stdout = []\<rparr>) \<and>
   sent (fst (get_code raising_state (get_request [(''contractAddress'', ''0x1'')]) fresh_world)) =
     None"
  by (simp add: get_code_def helper_defs sample_defs parse_defs)

text \<open>
  C4 (a run of the code that disagrees with the claim). When the wrapper raises
  a StarkException with the message \<^verbatim>\<open>no trace\<close> during
  \<^verbatim>\<open>get_transaction_trace\<close>, the response has status 500, and its body is
  the exception object where the claim has the message: the view passes
  \<^verbatim>\<open>err\<close> to \<^verbatim>\<open>Response\<close>, not \<^verbatim>\<open>err.message\<close> as the views of the
  call, the fee estimate, the block and the state update do.
\<close>

theorem get_transaction_trace_failure_body:
  "get_transaction_trace raising_state (get_request [(''transactionHash'', ''0x0'')]) fresh_world =
     (Abort (Response (Object (stark_exception ''no trace'')) 500),
      \<lparr>engine_calls = [GetTransactionTrace (Some ''0x0'')], stdout = []\<rparr>) \<and>
   wrapper_get_transaction_trace (starknet_wrapper raising_state) (Some ''0x0'') =
     Inl (stark_exception ''no trace'') \<and>
   fst (get_transaction_trace raising_state (get_request [(''transactionHash'', ''0x0'')])
          fresh_world) \<noteq>
     Abort (Response (Text ''no trace'') 500)"
  by (simp add: get_transaction_trace_def helper_defs sample_defs)

subsection \<open>Calling a contract\<close>




subsection \<open>Status codes\<close>

text \<open>
  C6 (as the code has it). Every status code a view of the blueprint answers
  with is one of 200, 400, 500 and 501, and none is 404; the status 501 comes
  from \<^verbatim>\<open>get_contract_addresses\<close> alone.
\<close>

theorem feeder_gateway_status_codes:
  "sent (fst (feeder_gateway rule st req w)) = Some r \<Longrightarrow>
     status_code r \<in> {200, 400, 500, 501} \<and> status_code r \<noteq> 404 \<and>
     (status_code r = 501 \<longrightarrow> rule = Get_contract_addresses)"
proof (cases rule)
  case Is_alive
  assume "sent (fst (feeder_gateway rule st req w)) = Some r"
  with Is_alive show ?thesis by (auto simp: is_alive_def)
next
  case Get_contract_addresses
  assume "sent (fst (feeder_gateway rule st req w)) = Some r"
  with Get_contract_addresses show ?thesis by (auto simp: get_contract_addresses_def)
next
  case Call_contract
  assume "sent (fst (feeder_gateway rule st req w)) = Some r"
  with Call_contract status_call_contract [of st req w r] show ?thesis by auto
next
  case Get_block
  assume "sent (fst (feeder_gateway rule st req w)) = Some r"
  with Get_block status_get_block [of st req w r] show ?thesis by auto
next
  case Get_code
  assume "sent (fst (feeder_gateway rule st req w)) = Some r"
  with Get_code status_get_code [of st req w r] show ?thesis by auto
next
  case Get_full_contract
  assume "sent (fst (feeder_gateway rule st req w)) = Some r"
  with Get_full_contract status_get_full_contract [of st req w r] show ?thesis by auto
next
  case Get_storage_at
  assume "sent (fst (feeder_gateway rule st req w)) = Some r"
  with Get_storage_at status_get_storage_at [of st req w r] show ?thesis by auto
next
  case Get_transaction_status
  assume "sent (fst (feeder_gateway rule st req w)) = Some r"
  with Get_transaction_status status_get_transaction_status [of st req w r]
  show ?thesis by auto
next
  case Get_transaction
  assume "sent (fst (feeder_gateway rule st req w)) = Some r"
  with Get_transaction status_get_transaction [of st req w r] show ?thesis by auto
next
  case Get_transaction_receipt
  assume "sent (fst (feeder_gateway rule st req w)) = Some r"
  with Get_transaction_receipt status_get_transaction_receipt [of st req w r]
  show ?thesis by auto
next
  case Get_transaction_trace
  assume "sent (fst (feeder_gateway rule st req w)) = Some r"
  with Get_transaction_trace status_get_transaction_trace [of st req w r]
  show ?thesis by auto
next
  case Get_state_update
  assume "sent (fst (feeder_gateway rule st req w)) = Some r"
  with Get_state_update status_get_state_update [of st req w r] show ?thesis by auto
next
  case Estimate_fee
  assume "sent (fst (feeder_gateway rule st req w)) = Some r"
  with Estimate_fee status_estimate_fee [of st req w r] show ?thesis by auto
qed

theorem feeder_gateway_status_codes_witness:
  "sent (fst (feeder_gateway Get_contract_addresses answering_state (get_request [])
            fresh_world)) = Some (Response (Text ''Not implemented'') 501) \<and>
   status_code (Response (Text ''Not implemented'') 501) \<in> {200, 400, 500, 501} \<and>
   status_code (Response (Text ''Not implemented'') 501) \<noteq> 404 \<and>
   status_code (Response (Text ''Not implemented'') 501) = 501 \<and>
   sent (fst (feeder_gateway Call_contract answering_state (post_request ''{}'')
            fresh_world)) =
     Some (Response
        (Text ''Invalid Starknet function call: Missing data for required field.'') 400) \<and>
   status_code (Response
        (Text ''Invalid Starknet function call: Missing data for required field.'') 400)
     \<in> {200, 400, 500, 501}"
proof -
  have a: "sent (fst (feeder_gateway Get_contract_addresses answering_state (get_request [])
            fresh_world)) = Some (Response (Text ''Not implemented'') 501)"
    by (simp add: get_contract_addresses_def)
  have b: "sent (fst (feeder_gateway Call_contract answering_state (post_request ''{}'')
            fresh_world)) =
     Some (Response
        (Text ''Invalid Starknet function call: Missing data for required field.'') 400)"
    by (simp add: call_contract_def validate_call_def isinstance_def sample_defs)
  from a feeder_gateway_status_codes [OF a] b feeder_gateway_status_codes [OF b]
  show ?thesis by simp
qed

theorem status_501_counterexample:
  "sent (fst (feeder_gateway Get_contract_addresses answering_state (get_request [])
            fresh_world)) = Some (Response (Text ''Not implemented'') 501) \<and>
   status_code (Response (Text ''Not implemented'') 501) \<notin> {200, 400, 500}"
  by (simp add: get_contract_addresses_def)

subsection \<open>Estimating a fee\<close>

text \<open>
  C7. Whenever \<^verbatim>\<open>estimate_fee\<close> succeeds, its body is the JSON object that
  binds \<^verbatim>\<open>amount\<close> to an integer and \<^verbatim>\<open>unit\<close> to the string
  \<^verbatim>\<open>wei\<close>: for every fee the wrapper computes for the decoded transaction
  the view returns that object with status 200, and every response of the view
  with status 200 has that shape.
\<close>

theorem estimate_fee_object_shape:
  "(InvokeFunction_loads st (data req) = Inr transaction \<and>
    wrapper_calculate_actual_fee (starknet_wrapper st) transaction = Inr actual_fee \<longrightarrow>
      fst (estimate_fee st req w) =
        Return (Response (Json (JObj [(''amount'', JInt actual_fee), (''unit'', JStr ''wei'')]))
                  200)) \<and>
   (sent (fst (estimate_fee st req w)) = Some r \<and> status_code r = 200 \<longrightarrow>
      (\<exists>amount. body r = Json (JObj [(''amount'', JInt amount), (''unit'', JStr ''wei'')])))"
  by (auto simp: estimate_fee_def validate_transaction_def jsonify_def Let_def
           split: sum.splits if_splits)

theorem estimate_fee_object_shape_witness:
  "InvokeFunction_loads answering_state (data (post_request ''ok'')) = Inr ''ok'' \<and>
   wrapper_calculate_actual_fee (starknet_wrapper answering_state) ''ok'' = Inr 0 \<and>
   fst (estimate_fee answering_state (post_request ''ok'') fresh_world) =
     Return (Response (Json (JObj [(''amount'', JInt 0), (''unit'', JStr ''wei'')])) 200) \<and>
   sent (fst (estimate_fee answering_state (post_request ''ok'') fresh_world)) =
     Some (Response (Json (JObj [(''amount'', JInt 0), (''unit'', JStr ''wei'')])) 200) \<and>
   status_code (Response (Json (JObj [(''amount'', JInt 0), (''unit'', JStr ''wei'')])) 200) =
     200 \<and>
   (\<exists>amount. body (Response (Json (JObj [(''amount'', JInt 0), (''unit'', JStr ''wei'')])) 200) =
      Json (JObj [(''amount'', JInt amount), (''unit'', JStr ''wei'')]))"
proof -
  let ?r = "Response (Json (JObj [(''amount'', JInt 0), (''unit'', JStr ''wei'')])) 200"
  have good: "InvokeFunction_loads answering_state (data (post_request ''ok'')) = Inr ''ok''"
    by (simp add: answering_state_def sample_loads_def post_request_def)
  have fee: "wrapper_calculate_actual_fee (starknet_wrapper answering_state) ''ok'' = Inr 0"
    by (simp add: answering_state_def answering_wrapper_def)
  note inst = estimate_fee_object_shape
    [of answering_state "post_request ''ok''" "''ok''" 0 fresh_world ?r]
  from good fee inst
  have a: "fst (estimate_fee answering_state (post_request ''ok'') fresh_world) = Return ?r"
    by blast
  then have b: "sent (fst (estimate_fee answering_state (post_request ''ok'') fresh_world)) =
      Some ?r"
    by simp
  have c: "status_code ?r = 200" by simp
  from b c inst
  have d: "\<exists>amount. body ?r = Json (JObj [(''amount'', JInt amount), (''unit'', JStr ''wei'')])"
    by blast
  from good fee a b c d show ?thesis by blast
qed

subsection \<open>The views that do not reach the engine\<close>

text \<open>
  C8. Every request to \<^verbatim>\<open>get_contract_addresses\<close> is answered with status
  501 and the body \<^verbatim>\<open>Not implemented\<close>, whatever the state and the request
  are, and the world is as before: no method of the wrapper was invoked.
\<close>

theorem get_contract_addresses_not_implemented:
  "feeder_gateway Get_contract_addresses st req w =
     (Return (Response (Text ''Not implemented'') 501), w) \<and>
   sent (fst (feeder_gateway Get_contract_addresses st req w)) =
     Some (Response (Text ''Not implemented'') 501) \<and>
   engine_calls (snd (feeder_gateway Get_contract_addresses st req w)) = engine_calls w"
  by (simp add: get_contract_addresses_def)

text \<open>
  C9. Every request to \<^verbatim>\<open>is_alive\<close> is answered with exactly status 200 and
  the body \<^verbatim>\<open>Alive!!!\<close>: the answer is the same for any two states of the
  engine and any two requests, and the world is as before.
\<close>

theorem is_alive_always_alive:
  "feeder_gateway Is_alive st req w = (Return (Response (Text ''Alive!!!'') 200), w) \<and>
   fst (feeder_gateway Is_alive st req w) = fst (feeder_gateway Is_alive st' req' w')"
  by (simp add: is_alive_def)

subsection \<open>The block hash of the contract views\<close>

text \<open>
  C10. The answers of \<^verbatim>\<open>get_code\<close>, \<^verbatim>\<open>get_full_contract\<close> and
  \<^verbatim>\<open>get_storage_at\<close> do not depend on the parameter \<^verbatim>\<open>blockHash\<close>: two
  requests that agree on every other parameter get, from the same engine, the
  same result, and the same method of the wrapper is invoked with the same
  arguments, whether a block hash is supplied or not and whatever it is.
\<close>

theorem contract_views_ignore_block_hash:
  assumes "\<forall>key. key \<noteq> ''blockHash'' \<longrightarrow> args_get (args r1) key = args_get (args r2) key"
  shows "fst (get_code st r1 w) = fst (get_code st r2 w) \<and>
         engine_calls (snd (get_code st r1 w)) = engine_calls (snd (get_code st r2 w)) \<and>
         fst (get_full_contract st r1 w) = fst (get_full_contract st r2 w) \<and>
         engine_calls (snd (get_full_contract st r1 w)) =
           engine_calls (snd (get_full_contract st r2 w)) \<and>
         fst (get_storage_at st r1 w) = fst (get_storage_at st r2 w) \<and>
         engine_calls (snd (get_storage_at st r1 w)) =
           engine_calls (snd (get_storage_at st r2 w))"
proof -
  have same: "args_get_typed custom_int (args r1) key = args_get_typed custom_int (args r2) key"
    if "key \<noteq> ''blockHash''" for key
    using assms that by (simp add: args_get_typed_def args_get_def)
  have a: "args_get_typed custom_int (args r1) ''contractAddress'' =
      args_get_typed custom_int (args r2) ''contractAddress''"
    by (rule same) simp
  have k: "args_get_typed custom_int (args r1) ''key'' =
      args_get_typed custom_int (args r2) ''key''"
    by (rule same) simp
  have code: "fst (get_code st r1 w) = fst (get_code st r2 w) \<and>
      engine_calls (snd (get_code st r1 w)) = engine_calls (snd (get_code st r2 w))"
    using a
    by (simp add: get_code_def invoked_def engine_calls_check_block_hash Let_def
             split: sum.splits)
  have full: "fst (get_full_contract st r1 w) = fst (get_full_contract st r2 w) \<and>
      engine_calls (snd (get_full_contract st r1 w)) =
        engine_calls (snd (get_full_contract st r2 w))"
    using a
    by (simp add: get_full_contract_def invoked_def engine_calls_check_block_hash Let_def
             split: sum.splits)
  have storage: "fst (get_storage_at st r1 w) = fst (get_storage_at st r2 w) \<and>
      engine_calls (snd (get_storage_at st r1 w)) =
        engine_calls (snd (get_storage_at st r2 w))"
    using a k
    by (simp add: get_storage_at_def invoked_def engine_calls_check_block_hash Let_def
             split: sum.splits)
  from code full storage show ?thesis by blast
qed

theorem contract_views_ignore_block_hash_witness:
  "args_get (args (get_request [(''contractAddress'', ''0x1''), (''key'', ''2'')]))
     ''blockHash'' = None \<and>
   args_get (args (get_request
       [(''blockHash'', ''0x5''), (''contractAddress'', ''0x1''), (''key'', ''2'')]))
     ''blockHash'' = Some ''0x5'' \<and>
   fst (get_code answering_state
          (get_request [(''contractAddress'', ''0x1''), (''key'', ''2'')]) fresh_world) =
   fst (get_code answering_state
          (get_request [(''blockHash'', ''0x5''), (''contractAddress'', ''0x1''), (''key'', ''2'')])
          fresh_world) \<and>
   fst (get_full_contract answering_state
          (get_request [(''contractAddress'', ''0x1''), (''key'', ''2'')]) fresh_world) =
   fst (get_full_contract answering_state
          (get_request [(''blockHash'', ''0x5''), (''contractAddress'', ''0x1''), (''key'', ''2'')])
          fresh_world) \<and>
   fst (get_storage_at answering_state
          (get_request [(''contractAddress'', ''0x1''), (''key'', ''2'')]) fresh_world) =
   fst (get_storage_at answering_state
          (get_request [(''blockHash'', ''0x5''), (''contractAddress'', ''0x1''), (''key'', ''2'')])
          fresh_world) \<and>
   stdout (snd (get_code answering_state
          (get_request [(''blockHash'', ''0x5''), (''contractAddress'', ''0x1''), (''key'', ''2'')])
          fresh_world)) =
     [''Specifying a block by its hash is not supported. All interaction is done with the latest block.'']"
proof -
  let ?r1 = "get_request [(''contractAddress'', ''0x1''), (''key'', ''2'')]"
  let ?r2 = "get_request
    [(''blockHash'', ''0x5''), (''contractAddress'', ''0x1''), (''key'', ''2'')]"
  have agree: "\<forall>key. key \<noteq> ''blockHash'' \<longrightarrow> args_get (args ?r1) key = args_get (args ?r2) key"
    by (simp add: get_request_def args_get_def)
  have notice: "stdout (snd (get_code answering_state ?r2 fresh_world)) =
     [''Specifying a block by its hash is not supported. All interaction is done with the latest block.'']"
    by (simp add: get_code_def helper_defs sample_defs parse_defs)
  have absent: "args_get (args ?r1) ''blockHash'' = None"
    by (simp add: get_request_def args_get_def)
  have present: "args_get (args ?r2) ''blockHash'' = Some ''0x5''"
    by (simp add: get_request_def args_get_def)
  from absent present notice
    contract_views_ignore_block_hash [OF agree, of answering_state fresh_world]
  show ?thesis by blast
qed

end
